theory Spec2Isabelle
  imports Complex_Main "HOL-Library.AList"
begin

section \<open>Strings\<close>

text \<open>Go's \<open>strings.HasPrefix\<close> and \<open>strings.Contains\<close> on byte strings.\<close>

definition HasPrefix :: "string \<Rightarrow> string \<Rightarrow> bool" where
  "HasPrefix s p = (take (length p) s = p)"

fun Contains :: "string \<Rightarrow> string \<Rightarrow> bool" where
  "Contains [] sub = (sub = [])"
| "Contains (c # s) sub = (HasPrefix (c # s) sub \<or> Contains s sub)"

section \<open>Time\<close>

text \<open>
  A \<open>time.Time\<close> is a point on the clock and a \<open>time.Duration\<close> a signed count of
  nanoseconds; both are integers here. \<open>Duration.Seconds\<close> is the duration divided by
  \<open>10^9\<close>; Go returns the nearest \<open>float64\<close>, the model the exact quotient.
  Every read of the clock (\<open>time.Now\<close>, \<open>time.Since\<close>) is an argument of the function
  that makes it.
\<close>

type_synonym time = int
type_synonym duration = int

definition Seconds :: "duration \<Rightarrow> real" where
  "Seconds d = real_of_int d / 1000000000"

definition Since :: "time \<Rightarrow> time \<Rightarrow> duration" where
  "Since now t = now - t"

section \<open>Errors\<close>

text \<open>
  The two sentinel errors of the session, an error of an external collaborator (packer,
  source-map builder, generated-code writer, hot reloader), and the wrapper
  \<open>parseerror.FromError(err, path)\<close>.

  Modelled from the spec: package \<open>parse_error\<close> is not among the sources; the spec says a
  failure is "wrapped with the originating file path", so \<open>FromError\<close> is a constructor
  holding the error and the path.
\<close>

datatype error =
    ErrFileTooRecentlyProcessed
  | ErrCannotBuildAssetKeys
  | External string
  | FromError error string

text \<open>What a call does: it returns its \<open>error\<close> (\<open>None\<close> is Go's \<open>nil\<close>) or it panics
  on a nil dereference.\<close>

datatype outcome = Return "error option" | Panic

section \<open>The recency cache\<close>

text \<open>
  Modelled from the spec: package \<open>allocated_stack\<close> is not among the sources. The spec:
  "bounded ring/stack of at most N most recently processed bundle keys"; "Oldest entry
  evicted on overflow". The newest key is the head of \<open>items\<close>.
\<close>

record Stack =
  capacity :: nat
  items :: "string list"

definition New :: "nat \<Rightarrow> Stack" where
  "New n = \<lparr>capacity = n, items = []\<rparr>"

definition Add :: "string \<Rightarrow> Stack \<Rightarrow> Stack" where
  "Add k st = st\<lparr>items := take (capacity st) (k # items st)\<rparr>"


text \<open>\<open>changeRequest\<close> holds the most recent file changes of the development cycle.\<close>

record changeRequest =
  LastProcessedAt :: time
  LastFileName :: string
  changeRequests :: Stack


text \<open>\<open>Push\<close>; \<open>now\<close> is what \<open>time.Now()\<close> returns.\<close>

definition Push :: "time \<Rightarrow> string \<Rightarrow> string \<Rightarrow> changeRequest \<Rightarrow> changeRequest" where
  "Push now fileName bundleKey c =
     c\<lparr>LastFileName := fileName, LastProcessedAt := now,
       changeRequests := Add bundleKey (changeRequests c)\<rparr>"

text \<open>
  \<open>IsWithinRage\<close>; the receiver is a pointer that may be nil (\<open>None\<close>), and \<open>now\<close> is
  the clock that \<open>time.Since\<close> reads.
\<close>

definition IsWithinRage :: "time \<Rightarrow> string \<Rightarrow> duration \<Rightarrow> changeRequest option \<Rightarrow> bool" where
  "IsWithinRage now file t c =
     (case c of
        None \<Rightarrow> True
      | Some cr \<Rightarrow>
          if file = LastFileName cr
          then Seconds (Since now (LastProcessedAt cr)) > Seconds t
          else True)"

section \<open>The dependency source map\<close>

text \<open>
  Modelled from the spec: package \<open>depend_tree\<close> is not among the sources. The spec:
  "mapping from dependency-file-path \<rightarrow> set of root-component file paths (insertion order
  irrelevant, set semantics)", "no entry may contain duplicate roots";
  \<open>Merge(other)\<close>: "full union of both maps' entries (set union per key)";
  \<open>MergeOverKey(other)\<close>: "for every root present in other, replace that root's
  contribution across all keys in the receiver with other's contribution";
  \<open>FindRoot(file) -> []rootPath\<close>: "all roots whose transitive dependency set contains
  file; empty if none".
  The session ranges over what \<open>FindRoot\<close> returns, so an entry is a list of roots; the
  set semantics is the invariant \<open>no_duplicate_roots\<close>.
\<close>

type_synonym DependencySourceMap = "string \<rightharpoonup> string list"

definition FindRoot :: "DependencySourceMap \<Rightarrow> string \<Rightarrow> string list" where
  "FindRoot m file = (case m file of None \<Rightarrow> [] | Some roots \<Rightarrow> roots)"

definition union_roots :: "string list \<Rightarrow> string list \<Rightarrow> string list" where
  "union_roots xs ys = xs @ filter (\<lambda>r. r \<notin> set xs) ys"

definition Merge :: "DependencySourceMap \<Rightarrow> DependencySourceMap \<Rightarrow> DependencySourceMap" where
  "Merge s other =
     (\<lambda>k. case s k of
             None \<Rightarrow> other k
           | Some xs \<Rightarrow> (case other k of None \<Rightarrow> Some xs | Some ys \<Rightarrow> Some (union_roots xs ys)))"

definition roots_present :: "DependencySourceMap \<Rightarrow> string set" where
  "roots_present m = \<Union> (set ` ran m)"

definition MergeOverKey :: "DependencySourceMap \<Rightarrow> DependencySourceMap \<Rightarrow> DependencySourceMap" where
  "MergeOverKey s other =
     (\<lambda>k. let kept = filter (\<lambda>r. r \<notin> roots_present other) (FindRoot s k)
          in case other k of
               None \<Rightarrow> (if s k = None then None else Some kept)
             | Some ys \<Rightarrow> Some (union_roots kept ys))"

definition no_duplicate_roots :: "DependencySourceMap \<Rightarrow> bool" where
  "no_duplicate_roots m = (\<forall>k roots. m k = Some roots \<longrightarrow> distinct roots)"

section \<open>The development session\<close>

text \<open>
  A \<open>srcpack.PackComponent\<close> is known to the session by its original file path and its
  bundle key; repacking it is an effect of the bundler.
\<close>

record component =
  OriginalFilePath :: string
  BundleKey :: string

text \<open>
  \<open>srcpack.PackComponentFileMap\<close> is a Go map from file path to component
  (\<open>s.RootComponents[filePath]\<close>), kept as an association list.

  Modelled from the spec: its methods \<open>Find\<close>, \<open>FindBundleKey\<close> and \<open>Set\<close> are not among
  the sources. The spec has a new page "registered" and a redirection rebuild "the
  corresponding component": \<open>Find\<close> looks a root up by its path, \<open>FindBundleKey\<close> by
  its bundle key, \<open>Set\<close> registers a component under its original file path; a lookup
  returns nil (\<open>None\<close>) when there is no such root.
\<close>

type_synonym PackComponentFileMap = "(string \<times> component) list"

definition Find :: "PackComponentFileMap \<Rightarrow> string \<Rightarrow> component option" where
  "Find m path = map_of m path"


definition Set_component :: "component \<Rightarrow> PackComponentFileMap \<Rightarrow> PackComponentFileMap" where
  "Set_component c m = AList.update (OriginalFilePath c) c m"

text \<open>
  The three rebuild classifications of the scheduler, and what a change request does to
  its collaborators, in the order it does it.
\<close>

datatype classification = DirectRebuild | NewPageRebuild | IndirectRebuild

datatype effect =
    Classified classification string
  | Repacked string
  | PackedSingle string
  | AcceptedComponent string
  | WroteLibout
  | SentReloadSignal

text \<open>
  \<open>devSession\<close>, the state a change request reads and updates. \<open>NewDevSession\<close>
  allocates the \<open>changeRequest\<close> and nothing reassigns the pointer, so the record holds
  the value. \<open>effects\<close> is the trace of the session's calls to its collaborators.
\<close>

record devSession =
  RootComponents :: PackComponentFileMap
  SourceMap :: DependencySourceMap
  ChangeRequest :: changeRequest
  effects :: "effect list"

definition did :: "effect \<Rightarrow> devSession \<Rightarrow> devSession" where
  "did e s = s\<lparr>effects := effects s @ [e]\<rparr>"

text \<open>
  \<open>ChangeRequestOpts\<close>: the debounce window and the hot reloader, which answers
  \<open>IsActiveBundle\<close> and whose \<open>ReloadSignal\<close> returns an error or nil. The hook and the
  parser only reach the collaborators.
\<close>

record ChangeRequestOpts =
  SafeFileTimeout :: duration
  IsActiveBundle :: "string \<Rightarrow> bool"
  ReloadSignal :: "error option"

text \<open>
  What the collaborators outside the session answer during one change request:
  \<open>srcpack.New\<close> on one component (with the parser of the options or a fresh
  \<open>JSFileParser\<close>), \<open>packer.PackSingle\<close>, \<open>assets.AssetKeys\<close>, \<open>libout.WriteLibout\<close>,
  and the clock at the debounce check, at the push of a new page and at the push of a
  repacked root.
\<close>

datatype parser = OptsParser | JSFileParser

record env =
  srcpack_New :: "parser \<Rightarrow> component \<Rightarrow> error + DependencySourceMap"
  PackSingle :: "string \<Rightarrow> error + component"
  AssetKeys :: "error option"
  WriteLibout :: "error option"
  now_check :: time
  now_newpage :: time
  now_repack :: time

text \<open>\<open>DirectFileChangeRequest\<close>: a change request for a root component itself.\<close>

definition DirectFileChangeRequest ::
  "env \<Rightarrow> string \<Rightarrow> component option \<Rightarrow> ChangeRequestOpts \<Rightarrow> devSession \<Rightarrow> outcome \<times> devSession" where
  "DirectFileChangeRequest w filePath pc opts s =
     (case pc of
        None \<Rightarrow> (Return None, s)
      | Some c \<Rightarrow>
          let filePath' = (if filePath = [] then OriginalFilePath c else filePath);
              s1 = did (Repacked (OriginalFilePath c)) s;
              s2 = s1\<lparr>ChangeRequest := Push (now_repack w) filePath' (BundleKey c) (ChangeRequest s1)\<rparr>
          in case srcpack_New w OptsParser c of
               Inl err \<Rightarrow> (Return (Some err), s2)
             | Inr sourceMap \<Rightarrow>
                 (Return None, s2\<lparr>SourceMap := MergeOverKey (SourceMap s2) sourceMap\<rparr>))"

text \<open>
  \<open>IndirectFileChangeRequest\<close>: the loop over the roots of a dependency; the first root
  whose bundle is active is repacked and ends the loop. \<open>component.BundleKey()\<close> on a
  root that \<open>Find\<close> does not know is a nil dereference.
\<close>

fun IndirectFileChangeRequest ::
  "env \<Rightarrow> string list \<Rightarrow> string \<Rightarrow> ChangeRequestOpts \<Rightarrow> devSession \<Rightarrow> outcome \<times> devSession" where
  "IndirectFileChangeRequest w [] indirectFile opts s = (Return None, s)"
| "IndirectFileChangeRequest w (source # sources) indirectFile opts s =
     (case Find (RootComponents s) source of
        None \<Rightarrow> (Panic, s)
      | Some c \<Rightarrow>
          if \<not> IsActiveBundle opts (BundleKey c)
          then IndirectFileChangeRequest w sources indirectFile opts s
          else
            let s1 = did (Repacked (OriginalFilePath c)) s;
                s2 = s1\<lparr>ChangeRequest := Push (now_repack w) indirectFile (BundleKey c) (ChangeRequest s1)\<rparr>
            in case srcpack_New w OptsParser c of
                 Inl err \<Rightarrow> (Return (Some err), s2)
               | Inr sourceMap \<Rightarrow>
                   (Return None, s2\<lparr>SourceMap := MergeOverKey (SourceMap s2) sourceMap\<rparr>))"

text \<open>\<open>NewPageFileChangeRequest\<close>: a change request for a file detected as a new page.\<close>

definition NewPageFileChangeRequest :: "env \<Rightarrow> string \<Rightarrow> devSession \<Rightarrow> outcome \<times> devSession" where
  "NewPageFileChangeRequest w file s =
     (case AssetKeys w of
        Some _ \<Rightarrow> (Return (Some ErrCannotBuildAssetKeys), s)
      | None \<Rightarrow>
          (case PackSingle w file of
             Inl err \<Rightarrow> (Return (Some err), did (PackedSingle file) s)
           | Inr c \<Rightarrow>
               let s1 = did WroteLibout
                          (did (AcceptedComponent (OriginalFilePath c)) (did (PackedSingle file) s))
               in case WriteLibout w of
                    Some err \<Rightarrow> (Return (Some err), s1)
                  | None \<Rightarrow>
                      (case srcpack_New w JSFileParser c of
                         Inl err \<Rightarrow> (Return (Some err), s1)
                       | Inr sourceMap \<Rightarrow>
                           (Return None,
                            s1\<lparr>SourceMap := Merge (SourceMap s1) sourceMap,
                               RootComponents := Set_component c (RootComponents s1),
                               ChangeRequest := Push (now_newpage w) file (BundleKey c) (ChangeRequest s1)\<rparr>))))"

text \<open>
  \<open>DoFileChangeRequest\<close>, block by block. \<open>finish_with_reload\<close> is the tail shared by the
  direct and the indirect block: wrap the error of the rebuild, else send the reload
  signal and wrap its error.
\<close>

definition finish_with_reload ::
  "string \<Rightarrow> ChangeRequestOpts \<Rightarrow> outcome \<times> devSession \<Rightarrow> outcome \<times> devSession" where
  "finish_with_reload filePath opts r =
     (case r of
        (Panic, s) \<Rightarrow> (Panic, s)
      | (Return (Some err), s) \<Rightarrow> (Return (Some (FromError err filePath)), s)
      | (Return None, s) \<Rightarrow>
          (case ReloadSignal opts of
             Some err \<Rightarrow> (Return (Some (FromError err filePath)), did SentReloadSignal s)
           | None \<Rightarrow> (Return None, did SentReloadSignal s)))"

text \<open>The last block: the file as a dependency of roots.\<close>

definition indirect_block ::
  "env \<Rightarrow> string \<Rightarrow> ChangeRequestOpts \<Rightarrow> devSession \<Rightarrow> outcome \<times> devSession" where
  "indirect_block w filePath opts s =
     (let sources = FindRoot (SourceMap s) filePath
      in if length sources > 0
         then finish_with_reload filePath opts
                (IndirectFileChangeRequest w sources filePath opts
                   (did (Classified IndirectRebuild filePath) s))
         else (Return None, s))"

text \<open>The new-page block, which falls through to the last block unless it fails.\<close>

definition newpage_block ::
  "env \<Rightarrow> string \<Rightarrow> ChangeRequestOpts \<Rightarrow> devSession \<Rightarrow> outcome \<times> devSession" where
  "newpage_block w filePath opts s =
     (if Contains filePath ''pages/''
      then (case NewPageFileChangeRequest w filePath (did (Classified NewPageRebuild filePath) s) of
              (Panic, s') \<Rightarrow> (Panic, s')
            | (Return (Some err), s') \<Rightarrow> (Return (Some (FromError err filePath)), s')
            | (Return None, s') \<Rightarrow> indirect_block w filePath opts s')
      else indirect_block w filePath opts s)"

definition DoFileChangeRequest ::
  "env \<Rightarrow> string \<Rightarrow> ChangeRequestOpts \<Rightarrow> devSession \<Rightarrow> outcome \<times> devSession" where
  "DoFileChangeRequest w filePath opts s =
     (if \<not> IsWithinRage (now_check w) filePath (SafeFileTimeout opts) (Some (ChangeRequest s))
      then (Return (Some ErrFileTooRecentlyProcessed), s)
      else if Contains filePath ''.orbit''
      then (Return None, s)
      else
        (case map_of (RootComponents s) filePath of
           Some known \<Rightarrow>
             if IsActiveBundle opts (BundleKey known)
             then finish_with_reload filePath opts
                    (DirectFileChangeRequest w filePath (Some known) opts
                       (did (Classified DirectRebuild filePath) s))
             else newpage_block w filePath opts s
         | None \<Rightarrow> newpage_block w filePath opts s))"


section \<open>The development server\<close>

text \<open>
  The hot reloader's log (\<open>EmitLog(level, err.Error())\<close>) and the logger's errors
  (\<open>logger.Error(err.Error())\<close>) are kept as lists of the errors whose text is logged;
  \<open>sourcemap_writes\<close> lists the directories \<open>SourceMap.Write\<close> was called with.
\<close>

datatype log_level = Warning | Error

record DevServer =
  session :: devSession
  hr_log :: "(log_level \<times> error) list"
  logger_errors :: "error list"
  sourcemap_writes :: "string list"





definition blacklistedDirectories :: "string list" where
  "blacklistedDirectories = [''.orbit/'']"

definition isBlacklistedDirectory :: "string \<Rightarrow> bool" where
  "isBlacklistedDirectory dir = list_ex (\<lambda>b. Contains dir b) blacklistedDirectories"

text \<open>
  \<open>FileWatcherBundler\<close>, one turn of its loop after the sleep. \<open>selected\<close> is the case
  the \<open>select\<close> statement takes: an event of the watcher, an error of the watcher, or
  the default case when neither channel is ready. The loop keeps \<open>recentEvent\<close> between
  turns; a turn ends in the next turn (\<open>Continue\<close>) or in a panic (\<open>Aborted\<close>).
\<close>

record DevServerEvent =
  Name :: string
  Processed :: bool

datatype selected = FromEvents string | FromErrors error | NoneReady

record watcher_loop =
  server :: DevServer
  recentEvent :: "DevServerEvent option"

datatype turn = Continue watcher_loop | Aborted

definition log_change_error :: "error option \<Rightarrow> DevServer \<Rightarrow> DevServer" where
  "log_change_error err d =
     (case err of
        None \<Rightarrow> d
      | Some e \<Rightarrow>
          if e = ErrFileTooRecentlyProcessed then d
          else d\<lparr>hr_log := hr_log d @ [(Error, e)], logger_errors := logger_errors d @ [e]\<rparr>)"

definition FileWatcherBundler_turn ::
  "env \<Rightarrow> ChangeRequestOpts \<Rightarrow> string \<Rightarrow> selected \<Rightarrow> watcher_loop \<Rightarrow> turn" where
  "FileWatcherBundler_turn w opts dep_map_out_dir sel st =
     (case sel of
        FromEvents e \<Rightarrow>
          if isBlacklistedDirectory e then Continue st
          else Continue (st\<lparr>recentEvent := Some \<lparr>Name = e, Processed = False\<rparr>\<rparr>)
      | NoneReady \<Rightarrow>
          (case recentEvent st of
             None \<Rightarrow> Continue st
           | Some ev \<Rightarrow>
               if Processed ev then Continue st
               else
                 (case DoFileChangeRequest w (Name ev) opts (session (server st)) of
                    (Panic, s') \<Rightarrow> Aborted
                  | (Return err, s') \<Rightarrow>
                      let d1 = log_change_error err ((server st)\<lparr>session := s'\<rparr>);
                          d2 = (if err = None \<and> length dep_map_out_dir > 0
                                then d1\<lparr>sourcemap_writes := sourcemap_writes d1 @ [dep_map_out_dir]\<rparr>
                                else d1)
                      in Continue \<lparr>server = d2, recentEvent = Some (ev\<lparr>Processed := True\<rparr>)\<rparr>))
      | FromErrors err \<Rightarrow> Aborted)"

section \<open>The tokenizer: import lines\<close>

text \<open>
  Modelled from the spec: the tokenizer of package \<open>jsparse\<close> (\<open>lineImportType\<close>,
  \<open>formatImportLine\<close>) is not among the sources; its tests are. The spec:
  "classify kind by whether the specifier begins with a relative-path marker (./, ../)
  vs. a bare module name. For Local imports: resolve the specifier against the importing
  file's directory, re-express it as a path relative to the configured output/web
  directory, and default the extension to .jsx if none is present; if the resolved path
  is a directory, append /index.jsx. Module imports are returned unchanged".
  The tests fix what the words leave open, and where the two differ the model follows
  the tests: the specifier stands between the first pair of quotes, single or double, and
  is written back in single quotes; a specifier under \<open>./\<close> is resolved in the
  directory of the importing file, any other local specifier in the web directory with
  its leading \<open>../\<close> steps removed (the rows of \<open>TestFormatImportLine\<close> with
  \<open>../react\<close> and \<open>../tools/test\<close>); the result is prefixed with
  \<open>../../../\<close>, the way from the output directory; and an absolute specifier is
  rewritten as a local one (\<open>TestFormatImportLine_Index\<close>). Whether a path is a
  directory is a question to the file system, the parameter \<open>is_dir\<close>.
\<close>

definition sq :: "string \<Rightarrow> string" where
  "sq s = CHR 0x27 # s @ [CHR 0x27]"

definition is_quote :: "char \<Rightarrow> bool" where
  "is_quote c = (c = CHR 0x27 \<or> c = CHR 0x22)"

definition statementWithoutPath :: "string \<Rightarrow> string" where
  "statementWithoutPath line = takeWhile (\<lambda>c. \<not> is_quote c) line"

definition specifier :: "string \<Rightarrow> string" where
  "specifier line =
     takeWhile (\<lambda>c. \<not> is_quote c) (drop 1 (dropWhile (\<lambda>c. \<not> is_quote c) line))"

datatype ImportType = LocalImportType | ModuleImportType

definition relative_marker :: "string \<Rightarrow> bool" where
  "relative_marker sp = (HasPrefix sp ''./'' \<or> HasPrefix sp ''../'')"


definition lineImportType :: "string \<Rightarrow> ImportType" where
  "lineImportType line =
     (let sp = specifier line
      in if relative_marker sp \<or> HasPrefix sp ''/'' then LocalImportType
         else ModuleImportType)"

fun split_on :: "(char \<Rightarrow> bool) \<Rightarrow> string \<Rightarrow> string list" where
  "split_on P [] = [[]]"
| "split_on P (c # cs) =
     (if P c then [] # split_on P cs
      else (case split_on P cs of [] \<Rightarrow> [[c]] | w # ws \<Rightarrow> (c # w) # ws))"

fun join_path :: "string list \<Rightarrow> string" where
  "join_path [] = []"
| "join_path [seg] = seg"
| "join_path (seg # segs) = seg @ ''/'' @ join_path segs"

definition segments :: "string \<Rightarrow> string list" where
  "segments path = split_on (\<lambda>c. c = CHR ''/'') path"

definition importing_dir :: "string \<Rightarrow> string" where
  "importing_dir file =
     join_path (filter (\<lambda>seg. seg \<noteq> [] \<and> seg \<noteq> ''.'') (butlast (segments file)))"

fun strip_parents :: "string \<Rightarrow> string" where
  "strip_parents (a # b # c # rest) =
     (if [a, b, c] = ''../'' then strip_parents rest else a # b # c # rest)"
| "strip_parents sp = sp"

definition last_segment :: "string \<Rightarrow> string" where
  "last_segment path = (case rev (segments path) of [] \<Rightarrow> [] | seg # _ \<Rightarrow> seg)"

definition has_extension :: "string \<Rightarrow> bool" where
  "has_extension path = (CHR ''.'' \<in> set (last_segment path))"

record DefaultJSDocument =
  webDir :: string
  pageDir :: string

record ImportDependency =
  FinalStatement :: string
  Type :: ImportType

definition local_target :: "DefaultJSDocument \<Rightarrow> string \<Rightarrow> string" where
  "local_target p sp =
     (if HasPrefix sp ''./'' then importing_dir (pageDir p) @ ''/'' @ drop 2 sp
      else webDir p @ ''/'' @ strip_parents sp)"

definition with_extension :: "(string \<Rightarrow> bool) \<Rightarrow> string \<Rightarrow> string" where
  "with_extension is_dir target =
     (if is_dir target then target @ ''/index.jsx''
      else if has_extension target then target
      else target @ ''.jsx'')"

definition formatImportLine ::
  "(string \<Rightarrow> bool) \<Rightarrow> DefaultJSDocument \<Rightarrow> string \<Rightarrow> ImportDependency" where
  "formatImportLine is_dir p line =
     (case lineImportType line of
        ModuleImportType \<Rightarrow> \<lparr>FinalStatement = line, Type = ModuleImportType\<rparr>
      | LocalImportType \<Rightarrow>
          \<lparr>FinalStatement =
             statementWithoutPath line
               @ sq (''../../../'' @ with_extension is_dir (local_target p (specifier line))),
           Type = LocalImportType\<rparr>)"



section \<open>The tokenizer: default exports\<close>

text \<open>
  Modelled from the spec: \<open>extractDefaultExportName\<close>, \<open>defaultPageName\<close>,
  \<open>parseInformalExportDefault\<close> and the export branch of \<open>tokenizeLine\<close> are not among
  the sources; their tests are. The spec: given \<open>export default <expr>\<close>, "if <expr> is a
  single capitalized identifier: export name = identifier, line passed through unchanged;
  if <expr> is a single lowercase identifier: fails with ErrExportNotCapitalized; if
  <expr> is a call/HOC-wrapped expression or anonymous function/arrow with an inferable
  synthetic name (derived deterministically from the source file's base name, converted
  to PascalCase, stripping the extension and collapsing separators): rewrite the line to
  bind the expression to a new const <SyntheticName> = <expr> declaration and use
  <SyntheticName> as the export name; if no name can be inferred: fails with
  ErrFunctionExport". An expression that is not a single identifier is an informal
  export; \<open>extractDefaultExportName\<close> alone has no file name and fails on it
  (\<open>Test_cleanExportDefaultName\<close>).
\<close>

datatype parse_error = ErrExportNotCapitalized | ErrFunctionExport | ParseError

definition upper_letters :: string where
  "upper_letters = ''ABCDEFGHIJKLMNOPQRSTUVWXYZ''"

definition lower_letters :: string where
  "lower_letters = ''abcdefghijklmnopqrstuvwxyz''"

definition is_upper :: "char \<Rightarrow> bool" where
  "is_upper c = (c \<in> set upper_letters)"

definition to_upper :: "char \<Rightarrow> char" where
  "to_upper c = (case map_of (zip lower_letters upper_letters) c of None \<Rightarrow> c | Some u \<Rightarrow> u)"

definition identifier_char :: "char \<Rightarrow> bool" where
  "identifier_char c = (c \<in> set (upper_letters @ lower_letters @ ''0123456789_$''))"

definition is_identifier :: "string \<Rightarrow> bool" where
  "is_identifier e = (e \<noteq> [] \<and> list_all identifier_char e)"

definition export_default :: string where
  "export_default = ''export default ''"

definition extractDefaultExportName :: "string \<Rightarrow> parse_error + string" where
  "extractDefaultExportName line =
     (if \<not> HasPrefix line export_default then Inl ParseError
      else
        (case drop (length export_default) line of
           [] \<Rightarrow> Inl ErrFunctionExport
         | c # cs \<Rightarrow>
             if \<not> is_identifier (c # cs) then Inl ErrFunctionExport
             else if is_upper c then Inr (c # cs)
             else Inl ErrExportNotCapitalized))"

definition is_separator :: "char \<Rightarrow> bool" where
  "is_separator c = (c = CHR ''_'' \<or> c = CHR ''-'')"

definition capitalize :: "string \<Rightarrow> string" where
  "capitalize w = (case w of [] \<Rightarrow> [] | c # cs \<Rightarrow> to_upper c # cs)"

definition defaultPageName :: "string \<Rightarrow> string" where
  "defaultPageName path =
     concat (map capitalize
       (filter (\<lambda>w. w \<noteq> [])
          (split_on is_separator (takeWhile (\<lambda>c. c \<noteq> CHR ''.'') (last_segment path)))))"

text \<open>
  What the tokenizer keeps of an export line: the name of the default export, and the
  line it adds to the other lines of the document (none when the line is left as it is).
\<close>

record default_export =
  export_name :: string
  added_line :: "string option"

definition parseInformalExportDefault :: "string \<Rightarrow> string \<Rightarrow> parse_error + default_export" where
  "parseInformalExportDefault path line =
     (let name = defaultPageName path;
          expr = drop (length export_default) line
      in if name = [] then Inl ErrFunctionExport
         else Inr \<lparr>export_name = name,
                   added_line = Some (''const '' @ name @ '' = '' @ expr)\<rparr>)"

definition tokenizeExportDefault :: "string \<Rightarrow> string \<Rightarrow> parse_error + default_export" where
  "tokenizeExportDefault path line =
     (case extractDefaultExportName line of
        Inr name \<Rightarrow> Inr \<lparr>export_name = name, added_line = None\<rparr>
      | Inl ErrFunctionExport \<Rightarrow> parseInformalExportDefault path line
      | Inl err \<Rightarrow> Inl err)"

section \<open>Rebuild classifications of one change request\<close>

text \<open>
  The classifications a call of \<open>DoFileChangeRequest\<close> issues, in order: those its
  effects add to the ones the session had. \<open>accepted\<close> says the call passes the debounce
  check and the build-output check; \<open>active_root\<close> that the path is a known root whose
  bundle is active.
\<close>

fun classifications :: "effect list \<Rightarrow> classification list" where
  "classifications [] = []"
| "classifications (Classified c path # es) = c # classifications es"
| "classifications (e # es) = classifications es"

definition issued :: "env \<Rightarrow> string \<Rightarrow> ChangeRequestOpts \<Rightarrow> devSession \<Rightarrow> classification list" where
  "issued w filePath opts s =
     drop (length (classifications (effects s)))
       (classifications (effects (snd (DoFileChangeRequest w filePath opts s))))"

definition accepted :: "env \<Rightarrow> string \<Rightarrow> ChangeRequestOpts \<Rightarrow> devSession \<Rightarrow> bool" where
  "accepted w filePath opts s =
     (IsWithinRage (now_check w) filePath (SafeFileTimeout opts) (Some (ChangeRequest s))
      \<and> \<not> Contains filePath ''.orbit'')"

definition active_root :: "ChangeRequestOpts \<Rightarrow> devSession \<Rightarrow> string \<Rightarrow> bool" where
  "active_root opts s filePath =
     (case map_of (RootComponents s) filePath of
        None \<Rightarrow> False
      | Some known \<Rightarrow> IsActiveBundle opts (BundleKey known))"

section \<open>Example inputs\<close>

text \<open>
  Two pages; a session as \<open>NewDevSession\<close> leaves it (an empty cache of capacity 10)
  whose only root is page b, which imports page a; a session whose only root is page a;
  a session with both roots, where page b imports page a; options with a debounce window
  of one second; collaborators that succeed.
\<close>

definition page_a :: component where
  "page_a = \<lparr>OriginalFilePath = ''pages/a.jsx'', BundleKey = ''ka''\<rparr>"

definition page_b :: component where
  "page_b = \<lparr>OriginalFilePath = ''pages/b.jsx'', BundleKey = ''kb''\<rparr>"

definition fresh_changeRequest :: changeRequest where
  "fresh_changeRequest = \<lparr>LastProcessedAt = 0, LastFileName = [], changeRequests = New 10\<rparr>"

definition session_b :: devSession where
  "session_b =
     \<lparr>RootComponents = [(''pages/b.jsx'', page_b)],
      SourceMap = [''pages/a.jsx'' \<mapsto> [''pages/b.jsx'']],
      ChangeRequest = fresh_changeRequest,
      effects = []\<rparr>"

definition session_a :: devSession where
  "session_a =
     \<lparr>RootComponents = [(''pages/a.jsx'', page_a)],
      SourceMap = Map.empty,
      ChangeRequest = fresh_changeRequest,
      effects = []\<rparr>"

definition session_ab :: devSession where
  "session_ab =
     \<lparr>RootComponents = [(''pages/a.jsx'', page_a), (''pages/b.jsx'', page_b)],
      SourceMap = [''pages/a.jsx'' \<mapsto> [''pages/b.jsx'']],
      ChangeRequest = fresh_changeRequest,
      effects = []\<rparr>"

definition session_pushed :: devSession where
  "session_pushed =
     session_b\<lparr>ChangeRequest := Push 10000000000 ''pages/b.jsx'' ''kb'' fresh_changeRequest\<rparr>"

definition opts_b_active :: ChangeRequestOpts where
  "opts_b_active =
     \<lparr>SafeFileTimeout = 1000000000, IsActiveBundle = (\<lambda>k. k = ''kb''), ReloadSignal = None\<rparr>"

definition opts_none_active :: ChangeRequestOpts where
  "opts_none_active =
     \<lparr>SafeFileTimeout = 1000000000, IsActiveBundle = (\<lambda>k. False), ReloadSignal = None\<rparr>"

definition env_ok :: env where
  "env_ok =
     \<lparr>srcpack_New = (\<lambda>p c. Inr Map.empty),
      PackSingle = (\<lambda>file. Inr \<lparr>OriginalFilePath = file, BundleKey = ''ka''\<rparr>),
      AssetKeys = None,
      WriteLibout = None,
      now_check = 10500000000,
      now_newpage = 10600000000,
      now_repack = 10700000000\<rparr>"


definition env_fail :: env where
  "env_fail =
     env_ok\<lparr>PackSingle := (\<lambda>file. Inl (External ''pack failed'')),
            srcpack_New := (\<lambda>p c. Inl (External ''source map failed''))\<rparr>"

definition server_b :: DevServer where
  "server_b = \<lparr>session = session_b, hr_log = [], logger_errors = [], sourcemap_writes = []\<rparr>"

definition server_pushed :: DevServer where
  "server_pushed =
     \<lparr>session = session_pushed, hr_log = [], logger_errors = [], sourcemap_writes = []\<rparr>"

definition loop_a_pending :: watcher_loop where
  "loop_a_pending =
     \<lparr>server = server_b, recentEvent = Some \<lparr>Name = ''pages/a.jsx'', Processed = False\<rparr>\<rparr>"

definition loop_b_pending :: watcher_loop where
  "loop_b_pending =
     \<lparr>server = server_pushed, recentEvent = Some \<lparr>Name = ''pages/b.jsx'', Processed = False\<rparr>\<rparr>"


definition map_b :: DependencySourceMap where
  "map_b = [''components/nav.jsx'' \<mapsto> [''pages/b.jsx'']]"

definition map_ab :: DependencySourceMap where
  "map_ab = [''components/nav.jsx'' \<mapsto> [''pages/a.jsx'', ''pages/b.jsx'']]"

text \<open>
  The document of \<open>TestFormatImportLine\<close> (web directory \<open>test\<close>, importing file
  \<open>./thing/apple.js\<close>), the document of \<open>TestFormatImportLine_Index\<close> (no web
  directory), and import lines: a module, a file beside the importing file, a file one
  directory up, and an absolute path.
\<close>

definition doc_test :: DefaultJSDocument where
  "doc_test = \<lparr>webDir = ''test'', pageDir = ''./thing/apple.js''\<rparr>"


definition line_react :: string where
  "line_react = ''import React from '' @ sq ''react''"




text \<open>The file name without its directories and extension, as \<open>defaultPageName\<close> reads it.\<close>

definition stem :: "string \<Rightarrow> string" where
  "stem path = takeWhile (\<lambda>c. c \<noteq> CHR ''.'') (last_segment path)"

text \<open>What the last block of \<open>DoFileChangeRequest\<close> issues in a session.\<close>

definition indirect_issued :: "devSession \<Rightarrow> string \<Rightarrow> classification list" where
  "indirect_issued s filePath =
     (if FindRoot (SourceMap s) filePath = [] then [] else [IndirectRebuild])"

section \<open>The debounce window\<close>


lemma IsWithinRage_other_file:
  "file \<noteq> LastFileName c \<Longrightarrow> IsWithinRage now file t (Some c)"
  by (simp add: IsWithinRage_def)


lemma finish_with_reload_not_debounce:
  "fst (finish_with_reload filePath opts r) \<noteq> Return (Some ErrFileTooRecentlyProcessed)"
  by (auto simp: finish_with_reload_def split: prod.splits outcome.splits option.splits)

lemma indirect_block_not_debounce:
  "fst (indirect_block w filePath opts s) \<noteq> Return (Some ErrFileTooRecentlyProcessed)"
  by (simp add: indirect_block_def Let_def finish_with_reload_not_debounce)

lemma newpage_block_not_debounce:
  "fst (newpage_block w filePath opts s) \<noteq> Return (Some ErrFileTooRecentlyProcessed)"
  by (auto simp: newpage_block_def indirect_block_not_debounce
      split: prod.splits outcome.splits option.splits)

lemma DoFileChangeRequest_debounce_iff:
  "fst (DoFileChangeRequest w filePath opts s) = Return (Some ErrFileTooRecentlyProcessed)
   \<longleftrightarrow> \<not> IsWithinRage (now_check w) filePath (SafeFileTimeout opts) (Some (ChangeRequest s))"
  by (auto simp: DoFileChangeRequest_def finish_with_reload_not_debounce newpage_block_not_debounce
      split: option.splits)



text \<open>
  C10. The debounce check knows one file: \<open>IsWithinRage\<close> accepts every path other than
  \<open>LastFileName\<close>; a file pushed before another file is accepted at any time, however
  recently it was pushed itself; and \<open>DoFileChangeRequest\<close> returns
  \<open>ErrFileTooRecentlyProcessed\<close> only for the file name the most recent \<open>Push\<close> recorded.
\<close>

theorem debounce_single_file:
  "(path \<noteq> LastFileName c \<longrightarrow> IsWithinRage now path t (Some c)) \<and>
   (F \<noteq> G \<longrightarrow> IsWithinRage now' F t' (Some (Push Tg G kg (Push Tf F kf c')))) \<and>
   (fst (DoFileChangeRequest w filePath opts s) = Return (Some ErrFileTooRecentlyProcessed)
      \<longrightarrow> filePath = LastFileName (ChangeRequest s))"
proof (intro conjI impI)
  assume "path \<noteq> LastFileName c"
  then show "IsWithinRage now path t (Some c)" by (rule IsWithinRage_other_file)
next
  assume "F \<noteq> G"
  then show "IsWithinRage now' F t' (Some (Push Tg G kg (Push Tf F kf c')))"
    by (simp add: IsWithinRage_def Push_def)
next
  assume "fst (DoFileChangeRequest w filePath opts s) = Return (Some ErrFileTooRecentlyProcessed)"
  then have "\<not> IsWithinRage (now_check w) filePath (SafeFileTimeout opts) (Some (ChangeRequest s))"
    by (simp add: DoFileChangeRequest_debounce_iff)
  then show "filePath = LastFileName (ChangeRequest s)"
    using IsWithinRage_other_file by blast
qed

theorem debounce_single_file_witness:
  "''pages/a.jsx'' \<noteq> LastFileName (ChangeRequest session_pushed)
   \<and> IsWithinRage 10000000001 ''pages/a.jsx'' 1000000000 (Some (ChangeRequest session_pushed))
   \<and> IsWithinRage 10000000001 ''pages/a.jsx'' 1000000000
        (Some (Push 10000000000 ''pages/b.jsx'' ''kb''
                 (Push 9999999999 ''pages/a.jsx'' ''ka'' fresh_changeRequest)))
   \<and> fst (DoFileChangeRequest env_ok ''pages/b.jsx'' opts_b_active session_pushed)
        = Return (Some ErrFileTooRecentlyProcessed)
   \<and> ''pages/b.jsx'' = LastFileName (ChangeRequest session_pushed)"
proof -
  have other: "''pages/a.jsx'' \<noteq> LastFileName (ChangeRequest session_pushed)"
    by (simp add: session_pushed_def Push_def)
  have rejected: "fst (DoFileChangeRequest env_ok ''pages/b.jsx'' opts_b_active session_pushed)
        = Return (Some ErrFileTooRecentlyProcessed)"
    by (simp add: DoFileChangeRequest_def IsWithinRage_def Seconds_def Since_def
        session_pushed_def Push_def env_ok_def opts_b_active_def)
  have differ: "''pages/a.jsx'' \<noteq> ''pages/b.jsx''" by simp
  show ?thesis
    using other rejected differ
      debounce_single_file [where path = "''pages/a.jsx''" and c = "ChangeRequest session_pushed"
        and now = 10000000001 and t = 1000000000 and F = "''pages/a.jsx''" and G = "''pages/b.jsx''"
        and now' = 10000000001 and t' = 1000000000 and Tg = 10000000000 and kg = "''kb''"
        and Tf = 9999999999 and kf = "''ka''" and c' = fresh_changeRequest and w = env_ok
        and filePath = "''pages/b.jsx''" and opts = opts_b_active and s = session_pushed]
    by blast
qed

text \<open>
  A call of \<open>DoFileChangeRequest\<close> for a path leaves the cache as it is or records that
  path as the last file name: the file of the most recent push is the file of the most
  recent change request that pushed.
\<close>

lemma did_ChangeRequest: "ChangeRequest (did e s) = ChangeRequest s"
  by (simp add: did_def)

lemma Direct_records_file:
  "filePath \<noteq> [] \<Longrightarrow>
     ChangeRequest (snd (DirectFileChangeRequest w filePath pc opts s)) = ChangeRequest s
     \<or> LastFileName (ChangeRequest (snd (DirectFileChangeRequest w filePath pc opts s))) = filePath"
  by (simp add: DirectFileChangeRequest_def Let_def Push_def did_ChangeRequest
      split: option.splits sum.splits)

lemma Indirect_records_file:
  "ChangeRequest (snd (IndirectFileChangeRequest w sources f opts s)) = ChangeRequest s
   \<or> LastFileName (ChangeRequest (snd (IndirectFileChangeRequest w sources f opts s))) = f"
  by (induction sources)
     (simp_all add: Let_def Push_def did_ChangeRequest split: option.splits sum.splits)

lemma NewPage_records_file:
  "ChangeRequest (snd (NewPageFileChangeRequest w f s)) = ChangeRequest s
   \<or> LastFileName (ChangeRequest (snd (NewPageFileChangeRequest w f s))) = f"
  by (simp add: NewPageFileChangeRequest_def Let_def Push_def did_ChangeRequest
      split: option.splits sum.splits)

lemma finish_ChangeRequest:
  "ChangeRequest (snd (finish_with_reload f opts r)) = ChangeRequest (snd r)"
  by (simp add: finish_with_reload_def did_ChangeRequest
      split: prod.splits outcome.splits option.splits)

lemma indirect_block_records_file:
  "ChangeRequest (snd (indirect_block w f opts s)) = ChangeRequest s
   \<or> LastFileName (ChangeRequest (snd (indirect_block w f opts s))) = f"
  using Indirect_records_file [of w "FindRoot (SourceMap s) f" f opts
      "did (Classified IndirectRebuild f) s"]
  by (simp add: indirect_block_def Let_def finish_ChangeRequest did_ChangeRequest)

lemma newpage_block_records_file:
  "ChangeRequest (snd (newpage_block w f opts s)) = ChangeRequest s
   \<or> LastFileName (ChangeRequest (snd (newpage_block w f opts s))) = f"
proof (cases "Contains f ''pages/''")
  case False
  then show ?thesis using indirect_block_records_file [of w f opts s]
    by (simp add: newpage_block_def)
next
  case pages: True
  let ?s1 = "did (Classified NewPageRebuild f) s"
  obtain r s' where np: "NewPageFileChangeRequest w f ?s1 = (r, s')"
    by (cases "NewPageFileChangeRequest w f ?s1")
  have first: "ChangeRequest s' = ChangeRequest s \<or> LastFileName (ChangeRequest s') = f"
    using NewPage_records_file [of w f ?s1] np by (simp add: did_ChangeRequest)
  show ?thesis
  proof (cases "r = Return None")
    case True
    then have "newpage_block w f opts s = indirect_block w f opts s'"
      using pages np by (simp add: newpage_block_def)
    then show ?thesis using first indirect_block_records_file [of w f opts s'] by auto
  next
    case False
    then have "snd (newpage_block w f opts s) = s'"
      using pages np by (auto simp: newpage_block_def split: outcome.splits option.splits)
    then show ?thesis using first by simp
  qed
qed

lemma DoFileChangeRequest_records_file:
  "filePath \<noteq> [] \<Longrightarrow>
     ChangeRequest (snd (DoFileChangeRequest w filePath opts s)) = ChangeRequest s
     \<or> LastFileName (ChangeRequest (snd (DoFileChangeRequest w filePath opts s))) = filePath"
  using Direct_records_file [of filePath w _ opts "did (Classified DirectRebuild filePath) s"]
    newpage_block_records_file [of w filePath opts s]
  by (auto simp: DoFileChangeRequest_def finish_ChangeRequest did_ChangeRequest
      split: option.splits)

section \<open>Rebuild classifications: what one call issues\<close>

lemma classifications_append:
  "classifications (xs @ ys) = classifications xs @ classifications ys"
  by (induction xs rule: classifications.induct) simp_all

lemma classifications_did:
  "classifications (effects (did e s)) = classifications (effects s) @ classifications [e]"
  by (simp add: did_def classifications_append)

lemma Direct_classifications:
  "classifications (effects (snd (DirectFileChangeRequest w filePath pc opts s)))
     = classifications (effects s)"
  by (simp add: DirectFileChangeRequest_def Let_def classifications_did
      split: option.splits sum.splits)

lemma Indirect_classifications:
  "classifications (effects (snd (IndirectFileChangeRequest w sources indirectFile opts s)))
     = classifications (effects s)"
  by (induction sources) (simp_all add: Let_def classifications_did split: option.splits sum.splits)

lemma NewPage_classifications:
  "classifications (effects (snd (NewPageFileChangeRequest w file s)))
     = classifications (effects s)"
  by (simp add: NewPageFileChangeRequest_def Let_def classifications_did
      split: option.splits sum.splits)

lemma finish_classifications:
  "classifications (effects (snd (finish_with_reload filePath opts r)))
     = classifications (effects (snd r))"
  by (simp add: finish_with_reload_def classifications_did
      split: prod.splits outcome.splits option.splits)

lemma indirect_block_classifications:
  "classifications (effects (snd (indirect_block w filePath opts s)))
     = classifications (effects s) @ indirect_issued s filePath"
  by (simp add: indirect_block_def indirect_issued_def Let_def finish_classifications
      Indirect_classifications classifications_did)

lemma newpage_block_classifications:
  "\<exists>rest. classifications (effects (snd (newpage_block w filePath opts s)))
     = classifications (effects s)
        @ (if Contains filePath ''pages/'' then [NewPageRebuild] else []) @ rest
     \<and> (rest = [] \<or> rest = [IndirectRebuild])"
proof (cases "Contains filePath ''pages/''")
  case False
  then show ?thesis
    by (simp add: newpage_block_def indirect_block_classifications indirect_issued_def)
next
  case pages: True
  let ?s1 = "did (Classified NewPageRebuild filePath) s"
  obtain r s' where np: "NewPageFileChangeRequest w filePath ?s1 = (r, s')"
    by (cases "NewPageFileChangeRequest w filePath ?s1")
  have cs: "classifications (effects s') = classifications (effects s) @ [NewPageRebuild]"
    using NewPage_classifications [of w filePath ?s1] np by (simp add: classifications_did)
  show ?thesis
  proof (cases "r = Return None")
    case True
    then have "newpage_block w filePath opts s = indirect_block w filePath opts s'"
      using pages np by (simp add: newpage_block_def)
    then show ?thesis
      using cs pages by (simp add: indirect_block_classifications indirect_issued_def)
  next
    case False
    then have "snd (newpage_block w filePath opts s) = s'"
      using pages np by (auto simp: newpage_block_def split: outcome.splits option.splits)
    then show ?thesis using cs pages by simp
  qed
qed

lemma issued_cases:
  "\<exists>cs. classifications (effects (snd (DoFileChangeRequest w filePath opts s)))
           = classifications (effects s) @ cs
      \<and> (if \<not> accepted w filePath opts s then cs = []
          else if active_root opts s filePath then cs = [DirectRebuild]
          else if Contains filePath ''pages/''
               then cs = [NewPageRebuild] \<or> cs = [NewPageRebuild, IndirectRebuild]
          else cs = [] \<or> cs = [IndirectRebuild])"
proof (cases "accepted w filePath opts s")
  case False
  then show ?thesis
    by (auto simp: accepted_def DoFileChangeRequest_def)
next
  case acc: True
  show ?thesis
  proof (cases "active_root opts s filePath")
    case True
    then show ?thesis using acc
      by (auto simp: accepted_def active_root_def DoFileChangeRequest_def finish_classifications
          Direct_classifications classifications_did split: option.splits)
  next
    case False
    then have eq: "DoFileChangeRequest w filePath opts s = newpage_block w filePath opts s"
      using acc
      by (auto simp: accepted_def active_root_def DoFileChangeRequest_def split: option.splits)
    show ?thesis
      using newpage_block_classifications [of w filePath opts s] acc False
      unfolding eq by auto
  qed
qed

lemma new_page_then_indirect:
  "effects (snd (DoFileChangeRequest env_ok ''pages/a.jsx'' opts_b_active session_b))
     = [Classified NewPageRebuild ''pages/a.jsx'', PackedSingle ''pages/a.jsx'',
        AcceptedComponent ''pages/a.jsx'', WroteLibout,
        Classified IndirectRebuild ''pages/a.jsx'', Repacked ''pages/b.jsx'', SentReloadSignal]"
  by (simp add: DoFileChangeRequest_def newpage_block_def indirect_block_def
      NewPageFileChangeRequest_def finish_with_reload_def Let_def did_def
      IsWithinRage_def FindRoot_def Find_def Set_component_def Merge_def HasPrefix_def
      env_ok_def opts_b_active_def session_b_def fresh_changeRequest_def page_b_def)

lemma new_page_for_known_root:
  "effects (snd (DoFileChangeRequest env_ok ''pages/a.jsx'' opts_none_active session_a))
     = [Classified NewPageRebuild ''pages/a.jsx'', PackedSingle ''pages/a.jsx'',
        AcceptedComponent ''pages/a.jsx'', WroteLibout]"
  by (simp add: DoFileChangeRequest_def newpage_block_def indirect_block_def
      NewPageFileChangeRequest_def finish_with_reload_def Let_def did_def
      IsWithinRage_def FindRoot_def Find_def Set_component_def Merge_def HasPrefix_def
      env_ok_def opts_none_active_def session_a_def fresh_changeRequest_def page_a_def)

lemma known_root_new_page_then_indirect:
  "effects (snd (DoFileChangeRequest env_ok ''pages/a.jsx'' opts_b_active session_ab))
     = [Classified NewPageRebuild ''pages/a.jsx'', PackedSingle ''pages/a.jsx'',
        AcceptedComponent ''pages/a.jsx'', WroteLibout,
        Classified IndirectRebuild ''pages/a.jsx'', Repacked ''pages/b.jsx'', SentReloadSignal]"
  by (simp add: DoFileChangeRequest_def newpage_block_def indirect_block_def
      NewPageFileChangeRequest_def finish_with_reload_def Let_def did_def
      IsWithinRage_def FindRoot_def Find_def Set_component_def Merge_def HasPrefix_def
      env_ok_def opts_b_active_def session_ab_def fresh_changeRequest_def page_a_def page_b_def)

text \<open>
  C1, as the code has it. One call of \<open>DoFileChangeRequest\<close> issues no classification,
  one, or \<open>NewPageRebuild\<close> followed by \<open>IndirectRebuild\<close>. A rejected or
  ignored path issues none. \<open>DirectRebuild\<close> is issued exactly for an accepted path that
  is a known root with an active bundle, and then stands alone. \<open>NewPageRebuild\<close> is
  issued exactly for an accepted path that has \<open>pages/\<close> in it and is not a known root
  with an active bundle. \<open>IndirectRebuild\<close> is issued only for an accepted path that is
  not a known root with an active bundle.
\<close>

theorem rebuild_classification:
  "issued w filePath opts s \<in>
      {[], [DirectRebuild], [NewPageRebuild], [IndirectRebuild], [NewPageRebuild, IndirectRebuild]}
   \<and> (DirectRebuild \<in> set (issued w filePath opts s)
        \<longleftrightarrow> accepted w filePath opts s \<and> active_root opts s filePath)
   \<and> (NewPageRebuild \<in> set (issued w filePath opts s)
        \<longleftrightarrow> accepted w filePath opts s \<and> \<not> active_root opts s filePath
            \<and> Contains filePath ''pages/'')
   \<and> (IndirectRebuild \<in> set (issued w filePath opts s)
        \<longrightarrow> accepted w filePath opts s \<and> \<not> active_root opts s filePath)"
proof -
  obtain cs where cs: "classifications (effects (snd (DoFileChangeRequest w filePath opts s)))
           = classifications (effects s) @ cs"
    and cases: "if \<not> accepted w filePath opts s then cs = []
          else if active_root opts s filePath then cs = [DirectRebuild]
          else if Contains filePath ''pages/''
               then cs = [NewPageRebuild] \<or> cs = [NewPageRebuild, IndirectRebuild]
          else cs = [] \<or> cs = [IndirectRebuild]"
    using issued_cases [of w filePath opts s] by blast
  have "issued w filePath opts s = cs"
    by (simp add: issued_def cs)
  then show ?thesis using cases by (auto split: if_splits)
qed

theorem rebuild_classification_witness:
  "accepted env_ok ''pages/b.jsx'' opts_b_active session_b
   \<and> active_root opts_b_active session_b ''pages/b.jsx''
   \<and> issued env_ok ''pages/b.jsx'' opts_b_active session_b = [DirectRebuild]
   \<and> accepted env_ok ''pages/a.jsx'' opts_b_active session_b
   \<and> \<not> active_root opts_b_active session_b ''pages/a.jsx''
   \<and> Contains ''pages/a.jsx'' ''pages/''
   \<and> NewPageRebuild \<in> set (issued env_ok ''pages/a.jsx'' opts_b_active session_b)
   \<and> DirectRebuild \<notin> set (issued env_ok ''pages/a.jsx'' opts_b_active session_b)"
proof -
  have acc_b: "accepted env_ok ''pages/b.jsx'' opts_b_active session_b"
    by (simp add: accepted_def IsWithinRage_def HasPrefix_def session_b_def
        fresh_changeRequest_def)
  have act_b: "active_root opts_b_active session_b ''pages/b.jsx''"
    by (simp add: active_root_def session_b_def opts_b_active_def page_b_def)
  have acc_a: "accepted env_ok ''pages/a.jsx'' opts_b_active session_b"
    by (simp add: accepted_def IsWithinRage_def HasPrefix_def session_b_def
        fresh_changeRequest_def)
  have act_a: "\<not> active_root opts_b_active session_b ''pages/a.jsx''"
    by (simp add: active_root_def session_b_def)
  have pages: "Contains ''pages/a.jsx'' ''pages/''"
    by (simp add: HasPrefix_def)
  have direct: "issued env_ok ''pages/b.jsx'' opts_b_active session_b = [DirectRebuild]"
    using acc_b act_b
      rebuild_classification [of env_ok "''pages/b.jsx''" opts_b_active session_b]
    by auto
  show ?thesis
    using acc_b act_b acc_a act_a pages direct
      rebuild_classification [of env_ok "''pages/a.jsx''" opts_b_active session_b]
    by blast
qed

text \<open>
  The claim as the spec states it fails twice. Page a is not a root and page b, an
  active root, depends on it: a change of \<open>pages/a.jsx\<close> is handled as
  \<open>NewPageRebuild\<close> and, in the same call, as \<open>IndirectRebuild\<close>, which repacks page
  b. Where page a is a known root whose bundle is not active, a change of
  \<open>pages/a.jsx\<close> is handled as \<open>NewPageRebuild\<close>. And where both pages are known
  roots, page b active and importing page a, one call does both.
\<close>

theorem rebuild_classification_counterexample:
  "issued env_ok ''pages/a.jsx'' opts_b_active session_b = [NewPageRebuild, IndirectRebuild]
   \<and> effects (snd (DoFileChangeRequest env_ok ''pages/a.jsx'' opts_b_active session_b))
       = [Classified NewPageRebuild ''pages/a.jsx'', PackedSingle ''pages/a.jsx'',
          AcceptedComponent ''pages/a.jsx'', WroteLibout,
          Classified IndirectRebuild ''pages/a.jsx'', Repacked ''pages/b.jsx'', SentReloadSignal]
   \<and> map_of (RootComponents session_a) ''pages/a.jsx'' = Some page_a
   \<and> issued env_ok ''pages/a.jsx'' opts_none_active session_a = [NewPageRebuild]
   \<and> map_of (RootComponents session_ab) ''pages/a.jsx'' = Some page_a
   \<and> issued env_ok ''pages/a.jsx'' opts_b_active session_ab = [NewPageRebuild, IndirectRebuild]"
proof -
  have "issued env_ok ''pages/a.jsx'' opts_b_active session_b = [NewPageRebuild, IndirectRebuild]"
    unfolding issued_def new_page_then_indirect by (simp add: session_b_def)
  moreover have "issued env_ok ''pages/a.jsx'' opts_none_active session_a = [NewPageRebuild]"
    unfolding issued_def new_page_for_known_root by (simp add: session_a_def)
  moreover have "map_of (RootComponents session_a) ''pages/a.jsx'' = Some page_a"
    by (simp add: session_a_def)
  moreover have "issued env_ok ''pages/a.jsx'' opts_b_active session_ab
      = [NewPageRebuild, IndirectRebuild]"
    unfolding issued_def known_root_new_page_then_indirect by (simp add: session_ab_def)
  moreover have "map_of (RootComponents session_ab) ''pages/a.jsx'' = Some page_a"
    by (simp add: session_ab_def)
  ultimately show ?thesis using new_page_then_indirect by simp
qed

section \<open>Merging source maps\<close>

lemma union_roots_idem: "union_roots xs xs = xs"
  by (simp add: union_roots_def)

lemma union_roots_distinct: "distinct xs \<Longrightarrow> distinct ys \<Longrightarrow> distinct (union_roots xs ys)"
  by (auto simp: union_roots_def)

lemma union_roots_set: "set (union_roots xs ys) = set xs \<union> set ys"
  by (auto simp: union_roots_def)

text \<open>
  C7. \<open>Merge\<close> is an idempotent union: merging a map with itself gives the map back, the
  roots of a key in a merged map are the roots of either map, and a map merged from maps
  without duplicate roots has no duplicate roots.
\<close>

theorem Merge_idempotent_union:
  "Merge A A = A
   \<and> set (FindRoot (Merge A B) k) = set (FindRoot A k) \<union> set (FindRoot B k)
   \<and> (no_duplicate_roots A \<and> no_duplicate_roots B \<longrightarrow> no_duplicate_roots (Merge A B))"
proof (intro conjI impI)
  show "Merge A A = A"
    by (rule ext) (simp add: Merge_def union_roots_idem split: option.splits)
  show "set (FindRoot (Merge A B) k) = set (FindRoot A k) \<union> set (FindRoot B k)"
    by (auto simp: Merge_def FindRoot_def union_roots_set split: option.splits)
  assume "no_duplicate_roots A \<and> no_duplicate_roots B"
  then show "no_duplicate_roots (Merge A B)"
    unfolding no_duplicate_roots_def Merge_def
    by (auto split: option.splits intro: union_roots_distinct)
qed

theorem Merge_idempotent_union_witness:
  "no_duplicate_roots map_b \<and> no_duplicate_roots map_ab
   \<and> no_duplicate_roots (Merge map_b map_ab)
   \<and> Merge map_ab map_ab = map_ab
   \<and> FindRoot (Merge map_b map_ab) ''components/nav.jsx'' = [''pages/b.jsx'', ''pages/a.jsx'']"
proof -
  have b: "no_duplicate_roots map_b"
    by (simp add: no_duplicate_roots_def map_b_def)
  have ab: "no_duplicate_roots map_ab"
    by (simp add: no_duplicate_roots_def map_ab_def)
  have found: "FindRoot (Merge map_b map_ab) ''components/nav.jsx'' = [''pages/b.jsx'', ''pages/a.jsx'']"
    by (simp add: FindRoot_def Merge_def union_roots_def map_b_def map_ab_def)
  show ?thesis
    using b ab found Merge_idempotent_union [of map_ab map_ab] Merge_idempotent_union [of map_b map_ab]
    by blast
qed

section \<open>The redirection loop\<close>




section \<open>The file-watcher loop\<close>

lemma log_change_error_session: "session (log_change_error err d) = session d"
  by (simp add: log_change_error_def split: option.splits)

lemma log_change_error_silent:
  "err = None \<or> err = Some ErrFileTooRecentlyProcessed \<Longrightarrow> log_change_error err d = d"
  by (auto simp: log_change_error_def)

lemma log_change_error_logged:
  "e \<noteq> ErrFileTooRecentlyProcessed \<Longrightarrow>
     hr_log (log_change_error (Some e) d) = hr_log d @ [(Error, e)]
     \<and> logger_errors (log_change_error (Some e) d) = logger_errors d @ [e]"
  by (simp add: log_change_error_def)

text \<open>
  C9. In the default case of the loop, with an event not yet processed: when
  \<open>DoFileChangeRequest\<close> returns nil or \<open>ErrFileTooRecentlyProcessed\<close>, neither the hot
  reloader's log nor the logger gets an entry; when it returns any other error, the error
  is emitted to the hot reloader at level \<open>Error\<close> and to the logger; either way the loop
  goes on to its next turn.
\<close>

theorem watcher_error_handling:
  "recentEvent st = Some ev \<and> \<not> Processed ev
   \<and> DoFileChangeRequest w (Name ev) opts (session (server st)) = (Return err, s')
   \<longrightarrow> (\<exists>st'. FileWatcherBundler_turn w opts dep_map_out_dir NoneReady st = Continue st'
          \<and> session (server st') = s'
          \<and> (err = None \<or> err = Some ErrFileTooRecentlyProcessed
               \<longrightarrow> hr_log (server st') = hr_log (server st)
                   \<and> logger_errors (server st') = logger_errors (server st))
          \<and> (\<forall>e. err = Some e \<and> e \<noteq> ErrFileTooRecentlyProcessed
               \<longrightarrow> hr_log (server st') = hr_log (server st) @ [(Error, e)]
                   \<and> logger_errors (server st') = logger_errors (server st) @ [e]))"
  by (auto simp: FileWatcherBundler_turn_def Let_def log_change_error_session
      log_change_error_silent log_change_error_logged)

lemma failing_new_page_request:
  "fst (DoFileChangeRequest env_fail ''pages/a.jsx'' opts_b_active session_b)
     = Return (Some (FromError (External ''pack failed'') ''pages/a.jsx''))"
  by (simp add: DoFileChangeRequest_def newpage_block_def NewPageFileChangeRequest_def
      IsWithinRage_def HasPrefix_def did_def env_fail_def env_ok_def session_b_def
      fresh_changeRequest_def)

lemma rejected_request:
  "fst (DoFileChangeRequest env_ok ''pages/b.jsx'' opts_b_active session_pushed)
     = Return (Some ErrFileTooRecentlyProcessed)"
  by (simp add: DoFileChangeRequest_def IsWithinRage_def Seconds_def Since_def
      session_pushed_def Push_def env_ok_def opts_b_active_def)

theorem watcher_error_handling_witness:
  "(\<exists>st'. FileWatcherBundler_turn env_fail opts_b_active [] NoneReady loop_a_pending = Continue st'
      \<and> hr_log (server st') = [(Error, FromError (External ''pack failed'') ''pages/a.jsx'')]
      \<and> logger_errors (server st') = [FromError (External ''pack failed'') ''pages/a.jsx''])
   \<and> (\<exists>st'. FileWatcherBundler_turn env_ok opts_b_active [] NoneReady loop_b_pending = Continue st'
      \<and> hr_log (server st') = [] \<and> logger_errors (server st') = [])"
proof -
  let ?e = "FromError (External ''pack failed'') ''pages/a.jsx''"
  have pending_a: "recentEvent loop_a_pending = Some \<lparr>Name = ''pages/a.jsx'', Processed = False\<rparr>"
    and pending_b: "recentEvent loop_b_pending = Some \<lparr>Name = ''pages/b.jsx'', Processed = False\<rparr>"
    by (simp_all add: loop_a_pending_def loop_b_pending_def)
  have empty_a: "hr_log (server loop_a_pending) = []" "logger_errors (server loop_a_pending) = []"
    and empty_b: "hr_log (server loop_b_pending) = []" "logger_errors (server loop_b_pending) = []"
    by (simp_all add: loop_a_pending_def loop_b_pending_def server_b_def server_pushed_def)
  have run_a: "DoFileChangeRequest env_fail (Name \<lparr>Name = ''pages/a.jsx'', Processed = False\<rparr>)
        opts_b_active (session (server loop_a_pending))
      = (Return (Some ?e), snd (DoFileChangeRequest env_fail ''pages/a.jsx'' opts_b_active session_b))"
    using failing_new_page_request
    by (simp add: loop_a_pending_def server_b_def prod_eq_iff)
  have run_b: "DoFileChangeRequest env_ok (Name \<lparr>Name = ''pages/b.jsx'', Processed = False\<rparr>)
        opts_b_active (session (server loop_b_pending))
      = (Return (Some ErrFileTooRecentlyProcessed),
         snd (DoFileChangeRequest env_ok ''pages/b.jsx'' opts_b_active session_pushed))"
    using rejected_request
    by (simp add: loop_b_pending_def server_pushed_def prod_eq_iff)
  have a: "\<exists>st'. FileWatcherBundler_turn env_fail opts_b_active [] NoneReady loop_a_pending = Continue st'
      \<and> hr_log (server st') = [(Error, ?e)] \<and> logger_errors (server st') = [?e]"
    using pending_a run_a empty_a
      watcher_error_handling [where st = loop_a_pending and w = env_fail and opts = opts_b_active
        and ev = "\<lparr>Name = ''pages/a.jsx'', Processed = False\<rparr>" and err = "Some ?e"
        and dep_map_out_dir = "[]"
        and s' = "snd (DoFileChangeRequest env_fail ''pages/a.jsx'' opts_b_active session_b)"]
    by auto
  have b: "\<exists>st'. FileWatcherBundler_turn env_ok opts_b_active [] NoneReady loop_b_pending = Continue st'
      \<and> hr_log (server st') = [] \<and> logger_errors (server st') = []"
    using pending_b run_b empty_b
      watcher_error_handling [where st = loop_b_pending and w = env_ok and opts = opts_b_active
        and ev = "\<lparr>Name = ''pages/b.jsx'', Processed = False\<rparr>"
        and err = "Some ErrFileTooRecentlyProcessed" and dep_map_out_dir = "[]"
        and s' = "snd (DoFileChangeRequest env_ok ''pages/b.jsx'' opts_b_active session_pushed)"]
    by auto
  show ?thesis using a b by blast
qed

section \<open>Import lines\<close>






lemma TestFormatImportLine_module_rows:
  "FinalStatement (formatImportLine (\<lambda>path. False) doc_test line_react) = line_react"
  "FinalStatement (formatImportLine (\<lambda>path. False) doc_test
      (''import { withMemo } from '' @ sq ''react-thing'' @ '';''))
     = ''import { withMemo } from '' @ sq ''react-thing'' @ '';''"
  "FinalStatement (formatImportLine (\<lambda>path. False) doc_test (''import '' @ sq ''thing.css''))
     = ''import '' @ sq ''thing.css''"
  by (simp_all add: formatImportLine_def lineImportType_def specifier_def
      is_quote_def sq_def relative_marker_def HasPrefix_def line_react_def)


lemma Test_lineImportType:
  "lineImportType (''import { thing } from '' @ [CHR 0x22] @ ''@test/util'' @ [CHR 0x22])
     = ModuleImportType"
  "lineImportType (''import cat from '' @ [CHR 0x22] @ ''../../utils.jsx'' @ [CHR 0x22])
     = LocalImportType"
  by (simp_all add: lineImportType_def specifier_def is_quote_def relative_marker_def
      HasPrefix_def)









section \<open>Default exports\<close>

lemma extract_identifier:
  "is_identifier ident \<Longrightarrow>
     extractDefaultExportName (export_default @ ident)
       = (if is_upper (hd ident) then Inr ident else Inl ErrExportNotCapitalized)"
  by (cases ident) (simp_all add: extractDefaultExportName_def HasPrefix_def is_identifier_def)

lemma extract_informal:
  "\<not> is_identifier expr \<Longrightarrow>
     extractDefaultExportName (export_default @ expr) = Inl ErrFunctionExport"
  by (cases expr) (simp_all add: extractDefaultExportName_def HasPrefix_def)

text \<open>\<open>Test_cleanExportDefaultName\<close>, \<open>Test_defaultPageName\<close> and the export rows of
  \<open>TestTokenizeLine\<close>.\<close>

lemma Test_cleanExportDefaultName:
  "extractDefaultExportName ''export default Test'' = Inr ''Test''"
  "extractDefaultExportName ''export default () => {}'' = Inl ErrFunctionExport"
  "extractDefaultExportName ''export default test'' = Inl ErrExportNotCapitalized"
  by (simp_all add: extractDefaultExportName_def export_default_def HasPrefix_def
      is_identifier_def identifier_char_def is_upper_def upper_letters_def lower_letters_def)

lemma Test_defaultPageName:
  "defaultPageName ''thing_stuff'' = ''ThingStuff''"
  "defaultPageName ''sff_m.js'' = ''SffM''"
  "defaultPageName ''this-thing'' = ''ThisThing''"
  "defaultPageName ''something_easy'' = ''SomethingEasy''"
  "defaultPageName [] = []"
  by (simp_all add: defaultPageName_def last_segment_def segments_def is_separator_def
      capitalize_def to_upper_def lower_letters_def upper_letters_def)

lemma informal_expressions:
  "\<not> is_identifier ''HOCSomething(Component)''"
  "\<not> is_identifier ''() => (<> </>)''"
  "\<not> is_identifier ''() => {}''"
  "is_identifier ''Test''" "is_upper (hd ''Test'')"
  "is_identifier ''test''" "\<not> is_upper (hd ''test'')"
  by (simp_all add: is_identifier_def identifier_char_def is_upper_def upper_letters_def
      lower_letters_def)

text \<open>
  C5. For \<open>export default <expr>\<close>: when \<open><expr>\<close> is a single identifier that starts
  with a capital letter, the export name is the identifier and no line is rewritten; when
  it is a single identifier that does not, parsing fails with
  \<open>ErrExportNotCapitalized\<close>; when it is not a single identifier (a function, an arrow,
  a call), \<open>extractDefaultExportName\<close> fails with \<open>ErrFunctionExport\<close>, and so does
  the tokenizer when the file path gives no name.
\<close>

theorem default_export_classification:
  "(is_identifier ident \<and> is_upper (hd ident) \<longrightarrow>
      extractDefaultExportName (export_default @ ident) = Inr ident
      \<and> tokenizeExportDefault path (export_default @ ident)
          = Inr \<lparr>export_name = ident, added_line = None\<rparr>)
   \<and> (is_identifier ident \<and> \<not> is_upper (hd ident) \<longrightarrow>
      extractDefaultExportName (export_default @ ident) = Inl ErrExportNotCapitalized
      \<and> tokenizeExportDefault path (export_default @ ident) = Inl ErrExportNotCapitalized)
   \<and> (\<not> is_identifier expr \<longrightarrow>
      extractDefaultExportName (export_default @ expr) = Inl ErrFunctionExport)
   \<and> (\<not> is_identifier expr \<and> defaultPageName path = [] \<longrightarrow>
      tokenizeExportDefault path (export_default @ expr) = Inl ErrFunctionExport)"
  by (simp add: tokenizeExportDefault_def extract_identifier extract_informal
      parseInformalExportDefault_def)

theorem default_export_classification_witness:
  "is_identifier ''Test'' \<and> is_upper (hd ''Test'')
   \<and> tokenizeExportDefault [] ''export default Test''
       = Inr \<lparr>export_name = ''Test'', added_line = None\<rparr>
   \<and> is_identifier ''test'' \<and> \<not> is_upper (hd ''test'')
   \<and> tokenizeExportDefault [] ''export default test'' = Inl ErrExportNotCapitalized
   \<and> \<not> is_identifier ''() => {}'' \<and> defaultPageName [] = []
   \<and> extractDefaultExportName ''export default () => {}'' = Inl ErrFunctionExport
   \<and> tokenizeExportDefault [] ''export default () => {}'' = Inl ErrFunctionExport"
proof -
  have lines: "export_default @ ''Test'' = ''export default Test''"
    "export_default @ ''test'' = ''export default test''"
    "export_default @ ''() => {}'' = ''export default () => {}''"
    by (simp_all add: export_default_def)
  show ?thesis
    using informal_expressions Test_defaultPageName(5)
      default_export_classification [where ident = "''Test''" and path = "[]"
        and expr = "''() => {}''"]
      default_export_classification [where ident = "''test''" and path = "[]"
        and expr = "''() => {}''"]
    unfolding lines by blast
qed

lemma split_on_nonempty: "split_on P s \<noteq> []"
  by (induction s) (simp_all split: list.splits)

lemma split_on_words: "\<forall>w \<in> set (split_on P s). \<forall>c \<in> set w. \<not> P c \<and> c \<in> set s"
proof (induction s)
  case Nil
  show ?case by simp
next
  case (Cons a s)
  show ?case
  proof (cases "P a")
    case True
    then show ?thesis using Cons by simp
  next
    case False
    obtain w ws where sp: "split_on P s = w # ws"
      using split_on_nonempty [of P s] by (cases "split_on P s") auto
    then have "split_on P (a # s) = (a # w) # ws" using False by simp
    then show ?thesis using Cons sp False by auto
  qed
qed

lemma split_on_no_sep: "w \<in> set (split_on P s) \<Longrightarrow> c \<in> set w \<Longrightarrow> \<not> P c"
  using split_on_words by blast

lemma split_on_subset: "w \<in> set (split_on P s) \<Longrightarrow> c \<in> set w \<Longrightarrow> c \<in> set s"
  using split_on_words by blast

lemma to_upper_cases: "to_upper c = c \<or> to_upper c \<in> set upper_letters"
  unfolding to_upper_def
  by (auto split: option.splits dest!: map_of_SomeD set_zip_rightD)

lemma upper_letters_plain:
  "u \<in> set upper_letters \<Longrightarrow>
     \<not> is_separator u \<and> u \<noteq> CHR ''.'' \<and> u \<noteq> CHR ''/'' \<and> u \<notin> set lower_letters"
  by (auto simp: upper_letters_def lower_letters_def is_separator_def)

lemma to_upper_not_lower: "to_upper c \<notin> set lower_letters"
proof (cases "c \<in> set lower_letters")
  case True
  then obtain u where "map_of (zip lower_letters upper_letters) c = Some u"
    using map_of_zip_is_Some [of lower_letters upper_letters c]
    by (auto simp: lower_letters_def upper_letters_def)
  then have "to_upper c = u" "u \<in> set upper_letters"
    by (auto simp: to_upper_def dest!: map_of_SomeD set_zip_rightD)
  then show ?thesis using upper_letters_plain by simp
next
  case False
  then have "map_of (zip lower_letters upper_letters) c = None"
    using map_of_zip_is_None [of lower_letters upper_letters c]
    by (simp add: lower_letters_def upper_letters_def)
  then show ?thesis using False by (simp add: to_upper_def)
qed

lemma last_segment_no_slash: "c \<in> set (last_segment path) \<Longrightarrow> c \<noteq> CHR ''/''"
proof -
  assume c: "c \<in> set (last_segment path)"
  show ?thesis
  proof (cases "rev (segments path)")
    case Nil
    then show ?thesis using c by (simp add: last_segment_def)
  next
    case (Cons seg rest)
    then have in_seg: "c \<in> set seg" using c by (simp add: last_segment_def)
    have "seg \<in> set (rev (segments path))" using Cons by simp
    then have "seg \<in> set (split_on (\<lambda>c. c = CHR ''/'') path)"
      by (simp add: segments_def)
    then show ?thesis using split_on_no_sep [of seg _ path c] in_seg by blast
  qed
qed

lemma stem_chars: "c \<in> set (stem path) \<Longrightarrow> c \<noteq> CHR ''.'' \<and> c \<noteq> CHR ''/''"
  unfolding stem_def
  by (metis last_segment_no_slash set_takeWhileD)

lemma capitalize_chars:
  "c \<in> set (capitalize w) \<Longrightarrow> c \<in> set w \<or> c \<in> set upper_letters"
  using to_upper_cases by (cases w) (auto simp: capitalize_def)

lemma defaultPageName_chars:
  "c \<in> set (defaultPageName path) \<Longrightarrow>
     \<not> is_separator c \<and> c \<noteq> CHR ''.'' \<and> c \<noteq> CHR ''/''"
proof -
  assume "c \<in> set (defaultPageName path)"
  then obtain w where w: "w \<in> set (split_on is_separator (stem path))"
    and c: "c \<in> set (capitalize w)"
    by (auto simp: defaultPageName_def stem_def)
  from c consider "c \<in> set w" | "c \<in> set upper_letters" using capitalize_chars by blast
  then show ?thesis
  proof cases
    case 1
    then show ?thesis
      using w split_on_no_sep [OF w 1] split_on_subset [OF w 1] stem_chars by blast
  next
    case 2
    then show ?thesis using upper_letters_plain by blast
  qed
qed

lemma defaultPageName_head:
  "defaultPageName path \<noteq> [] \<Longrightarrow> hd (defaultPageName path) \<notin> set lower_letters"
proof -
  assume ne: "defaultPageName path \<noteq> []"
  define ws where "ws = filter (\<lambda>w. w \<noteq> []) (split_on is_separator (stem path))"
  have name: "defaultPageName path = concat (map capitalize ws)"
    by (simp add: defaultPageName_def ws_def stem_def)
  have all: "\<forall>w \<in> set ws. w \<noteq> []" by (simp add: ws_def)
  show ?thesis
  proof (cases ws)
    case Nil
    then show ?thesis using ne name by simp
  next
    case (Cons w rest)
    then obtain c cs where "w = c # cs" using all by (cases w) auto
    then have "hd (defaultPageName path) = to_upper c"
      using name Cons by (simp add: capitalize_def)
    then show ?thesis using to_upper_not_lower by simp
  qed
qed

text \<open>
  C6. For \<open>export default <expr>\<close> where \<open><expr>\<close> is not a single identifier (a call, a
  wrapped component, a function, an arrow) and the file path gives a name: the export
  name is \<open>defaultPageName\<close> of the path and the line \<open>const <name> = <expr>\<close> is added.
  The name is a function of the path alone, starts with no lower-case letter, and has no
  separator, dot or slash in it; \<open>thing_stuff\<close> gives \<open>ThingStuff\<close> and \<open>sff_m.js\<close>
  gives \<open>SffM\<close>.
\<close>

theorem default_export_synthetic_name:
  "(\<not> is_identifier expr \<and> defaultPageName path \<noteq> [] \<longrightarrow>
      tokenizeExportDefault path (export_default @ expr)
        = Inr \<lparr>export_name = defaultPageName path,
               added_line = Some (''const '' @ defaultPageName path @ '' = '' @ expr)\<rparr>
      \<and> hd (defaultPageName path) \<notin> set lower_letters)
   \<and> (\<forall>c \<in> set (defaultPageName path). \<not> is_separator c \<and> c \<noteq> CHR ''.'' \<and> c \<noteq> CHR ''/'')
   \<and> defaultPageName ''thing_stuff'' = ''ThingStuff''
   \<and> defaultPageName ''sff_m.js'' = ''SffM''"
proof (intro conjI impI ballI)
  assume a: "\<not> is_identifier expr \<and> defaultPageName path \<noteq> []"
  then show "tokenizeExportDefault path (export_default @ expr)
        = Inr \<lparr>export_name = defaultPageName path,
               added_line = Some (''const '' @ defaultPageName path @ '' = '' @ expr)\<rparr>"
    by (simp add: tokenizeExportDefault_def extract_informal parseInformalExportDefault_def Let_def)
  show "hd (defaultPageName path) \<notin> set lower_letters"
    using a defaultPageName_head by blast
next
  fix c assume "c \<in> set (defaultPageName path)"
  then show "\<not> is_separator c" "c \<noteq> CHR ''.''" "c \<noteq> CHR ''/''"
    using defaultPageName_chars by blast+
next
  show "defaultPageName ''thing_stuff'' = ''ThingStuff''"
    by (rule Test_defaultPageName)
  show "defaultPageName ''sff_m.js'' = ''SffM''"
    by (rule Test_defaultPageName)
qed

theorem default_export_synthetic_name_witness:
  "\<not> is_identifier ''HOCSomething(Component)'' \<and> defaultPageName ''this-thing'' = ''ThisThing''
   \<and> tokenizeExportDefault ''this-thing'' ''export default HOCSomething(Component)''
       = Inr \<lparr>export_name = ''ThisThing'',
              added_line = Some ''const ThisThing = HOCSomething(Component)''\<rparr>
   \<and> \<not> is_identifier ''() => (<> </>)''
   \<and> defaultPageName ''something_easy'' = ''SomethingEasy''
   \<and> tokenizeExportDefault ''something_easy'' ''export default () => (<> </>)''
       = Inr \<lparr>export_name = ''SomethingEasy'',
              added_line = Some ''const SomethingEasy = () => (<> </>)''\<rparr>"
proof -
  have hoc: "tokenizeExportDefault ''this-thing'' ''export default HOCSomething(Component)''
       = Inr \<lparr>export_name = ''ThisThing'',
              added_line = Some ''const ThisThing = HOCSomething(Component)''\<rparr>"
    using informal_expressions(1) Test_defaultPageName(3)
      default_export_synthetic_name [where expr = "''HOCSomething(Component)''"
        and path = "''this-thing''"]
    by (simp add: export_default_def)
  have arrow: "tokenizeExportDefault ''something_easy'' ''export default () => (<> </>)''
       = Inr \<lparr>export_name = ''SomethingEasy'',
              added_line = Some ''const SomethingEasy = () => (<> </>)''\<rparr>"
    using informal_expressions(2) Test_defaultPageName(4)
      default_export_synthetic_name [where expr = "''() => (<> </>)''"
        and path = "''something_easy''"]
    by (simp add: export_default_def)
  show ?thesis
    using hoc arrow informal_expressions(1,2) Test_defaultPageName(3,4) by blast
qed

end
